theory Spec2Isabelle
  imports Complex_Main
begin

section \<open>JavaScript values used by the pages\<close>

text \<open>
  Numbers are JavaScript doubles in the source; they are modelled as exact reals
  (no rounding, no NaN). A value that may be missing (\<open>undefined\<close>, \<open>null\<close>) is an
  option. Strings are lists of characters; the model covers ASCII text.
\<close>

text \<open>Truthiness of a possibly missing number: \<open>undefined\<close>, \<open>null\<close> and \<open>0\<close> are falsy.\<close>

definition truthy_num :: "real option \<Rightarrow> bool" where
  "truthy_num v = (case v of None \<Rightarrow> False | Some x \<Rightarrow> x \<noteq> 0)"

text \<open>\<open>a || b\<close> on possibly missing numbers.\<close>

definition or_num :: "real option \<Rightarrow> real option \<Rightarrow> real option" where
  "or_num a b = (if truthy_num a then a else b)"

text \<open>\<open>a || 0\<close>: the number, or 0 when it is missing.\<close>

definition or_zero :: "real option \<Rightarrow> real" where
  "or_zero v = (case v of None \<Rightarrow> 0 | Some x \<Rightarrow> x)"

text \<open>\<open>a || b\<close> on possibly missing strings: the empty string is falsy.\<close>

definition or_str :: "string option \<Rightarrow> string \<Rightarrow> string" where
  "or_str a b = (case a of None \<Rightarrow> b | Some s \<Rightarrow> if s = [] then b else s)"

text \<open>ASCII white space, as removed by \<open>String.prototype.trim\<close> and matched by \<open>\s\<close>.\<close>

definition is_space :: "char \<Rightarrow> bool" where
  "is_space c = (c = CHR '' '' \<or> c = CHR 0x09 \<or> c = CHR 0x0A \<or> c = CHR 0x0B
                 \<or> c = CHR 0x0C \<or> c = CHR 0x0D)"

definition trim :: "string \<Rightarrow> string" where
  "trim s = rev (dropWhile is_space (rev (dropWhile is_space s)))"



definition is_digit :: "char \<Rightarrow> bool" where
  "is_digit c = (48 \<le> (of_char c :: nat) \<and> (of_char c :: nat) \<le> 57)"

text \<open>Decimal rendering of a natural number, as template literals print a count.\<close>

fun show_nat :: "nat \<Rightarrow> string" where
  "show_nat n =
     (if n < 10 then [char_of (48 + n)]
      else show_nat (n div 10) @ [char_of (48 + n mod 10)])"

declare show_nat.simps [simp del]

section \<open>The booking page (src/unnamed/part_004)\<close>

subsection \<open>Data\<close>

record passenger =
  passenger_name :: string
  age :: "real option"
  gender :: string

text \<open>The entry pushed for a new passenger: \<open>{ passenger_name: '', age: '', gender: '' }\<close>.\<close>

definition blank_passenger :: passenger where
  "blank_passenger = \<lparr>passenger_name = [], age = None, gender = []\<rparr>"

record seat =
  seat_id :: int
  surcharge :: "real option"

text \<open>
  A flight as the API returns it, with the fields the pages read. The two times are the
  instants \<open>new Date(...)\<close> makes of them, in milliseconds; \<open>airline\<close> is the value of
  \<open>f.airline?.name || f.airline\<close>.
\<close>

record flight_data =
  flight_id :: int
  flight_number :: string
  airline :: string
  departure_time :: int
  arrival_time :: int
  price_map :: "(string \<times> real) list option"
  dynamic_price :: "real option"
  current_price :: "real option"
  base_price :: "real option"

record card =
  card_number :: string
  card_name :: string
  card_expiry :: string
  card_cvv :: string

record user =
  user_id :: int
  first_name :: string
  last_name :: string

text \<open>
  The query string, already parsed (lines 30 to 33): \<open>passengersCount\<close> is the result of
  \<open>parseInt\<close> (\<open>None\<close> for NaN), \<open>seatTier\<close> and \<open>urlPrice\<close> carry their defaults
  \<open>'ECONOMY'\<close> and \<open>0\<close> when the parameter is absent.
\<close>

record url_params =
  flightId :: "string option"
  passengersCount :: "int option"
  seatTier :: string
  urlPrice :: real

record booking_state =
  currentStep :: nat
  flight :: "flight_data option"
  loading :: bool
  submitting :: bool
  error :: string
  lockedPrice :: real
  passengers :: "passenger list"
  selectedSeats :: "seat list"
  seatSurcharge :: real
  paymentMethod :: string
  cardDetails :: card
  upiId :: string
  selectedBank :: string

text \<open>
  \<open>Array.from({ length: passengersCount }, ...)\<close>: a NaN or negative length gives the
  empty array, any other count gives that many blank entries.
\<close>

definition initial_passengers :: "int option \<Rightarrow> passenger list" where
  "initial_passengers c =
     (case c of None \<Rightarrow> [] | Some n \<Rightarrow> replicate (nat n) blank_passenger)"

text \<open>The \<open>useState\<close> initial values (lines 36 to 56 and 89 to 97).\<close>

definition initial_state :: "url_params \<Rightarrow> booking_state" where
  "initial_state p =
     \<lparr>currentStep = 1, flight = None, loading = True, submitting = False, error = [],
      lockedPrice = urlPrice p,
      passengers = initial_passengers (passengersCount p),
      selectedSeats = [], seatSurcharge = 0,
      paymentMethod = ''card'',
      cardDetails = \<lparr>card_number = [], card_name = [], card_expiry = [], card_cvv = []\<rparr>,
      upiId = [], selectedBank = []\<rparr>"

subsection \<open>Passenger list and seat selection\<close>

definition addPassenger :: "booking_state \<Rightarrow> booking_state" where
  "addPassenger st =
     (if length (passengers st) \<ge> 9
      then st\<lparr>error := ''Maximum 9 passengers allowed per booking''\<rparr>
      else st\<lparr>passengers := passengers st @ [blank_passenger],
              selectedSeats := [], seatSurcharge := 0, error := []\<rparr>)"

text \<open>\<open>prev.filter((_, i) => i !== index)\<close>.\<close>

definition remove_index :: "nat \<Rightarrow> 'a list \<Rightarrow> 'a list" where
  "remove_index i xs = map snd (filter (\<lambda>(j, x). j \<noteq> i) (zip [0..<length xs] xs))"

definition removePassenger :: "nat \<Rightarrow> booking_state \<Rightarrow> booking_state" where
  "removePassenger index st =
     (if length (passengers st) \<le> 1 then st
      else st\<lparr>passengers := remove_index index (passengers st),
              selectedSeats := [], seatSurcharge := 0, error := []\<rparr>)"

text \<open>\<open>seats.reduce((sum, seat) => sum + (seat.surcharge || 0), 0)\<close>.\<close>

definition totalSurcharge :: "seat list \<Rightarrow> real" where
  "totalSurcharge seats = foldl (\<lambda>sum s. sum + or_zero (surcharge s)) 0 seats"

definition handleSeatSelect :: "seat list \<Rightarrow> booking_state \<Rightarrow> booking_state" where
  "handleSeatSelect seats st =
     st\<lparr>selectedSeats := seats, seatSurcharge := totalSurcharge seats\<rparr>"

datatype field_change = Set_passenger_name string | Set_age "real option" | Set_gender string

fun set_field :: "field_change \<Rightarrow> passenger \<Rightarrow> passenger" where
  "set_field (Set_passenger_name v) p = p\<lparr>passenger_name := v\<rparr>"
| "set_field (Set_age v) p = p\<lparr>age := v\<rparr>"
| "set_field (Set_gender v) p = p\<lparr>gender := v\<rparr>"

text \<open>
  \<open>handlePassengerChange\<close> is called from the rendered passenger cards only, so the index
  is inside the list; an index outside leaves the list as it is in the model.
\<close>

definition handlePassengerChange :: "nat \<Rightarrow> field_change \<Rightarrow> booking_state \<Rightarrow> booking_state" where
  "handlePassengerChange index f st =
     (if index < length (passengers st)
      then st\<lparr>passengers := (passengers st)[index := set_field f (passengers st ! index)]\<rparr>
      else st)"

text \<open>The effect that pre-fills the first passenger with the logged-in user (lines 163 to 174).\<close>

definition prefill :: "user \<Rightarrow> booking_state \<Rightarrow> booking_state" where
  "prefill u st =
     (case passengers st of
        [] \<Rightarrow> st
      | p # ps \<Rightarrow>
          if passenger_name p = []
          then st\<lparr>passengers := p\<lparr>passenger_name := first_name u @ '' '' @ last_name u\<rparr> # ps\<rparr>
          else st)"

subsection \<open>Price\<close>

definition multipliers :: "(string \<times> real) list" where
  "multipliers =
     [(''ECONOMY'', 1), (''ECONOMY_FLEX'', 12 / 10), (''BUSINESS'', 18 / 10), (''FIRST'', 25 / 10)]"

text \<open>\<open>data.dynamic_price || data.current_price || data.base_price || 0\<close>.\<close>

definition basePrice :: "flight_data \<Rightarrow> real" where
  "basePrice d = or_zero (or_num (or_num (dynamic_price d) (current_price d)) (base_price d))"

text \<open>\<open>basePrice * (multipliers[seatTier] || 1.0)\<close>.\<close>

definition computed :: "flight_data \<Rightarrow> string \<Rightarrow> real" where
  "computed d tier =
     basePrice d * (case or_num (map_of multipliers tier) (Some 1) of None \<Rightarrow> 1 | Some m \<Rightarrow> m)"

text \<open>
  The flight fetch (lines 111 to 146). Without a flight id the fetch is not made. A
  successful fetch stores the flight and, only when the URL price is 0, sets the locked
  price from the flight data; a failed one sets the error. Both end the loading state.
\<close>

definition fetchFlight :: "url_params \<Rightarrow> flight_data option \<Rightarrow> booking_state \<Rightarrow> booking_state" where
  "fetchFlight p response st =
     (if flightId p = None \<or> flightId p = Some []
      then st\<lparr>error := ''No flight selected'', loading := False\<rparr>
      else case response of
        Some d \<Rightarrow>
          (if urlPrice p = 0
           then st\<lparr>flight := Some d, lockedPrice := computed d (seatTier p), loading := False\<rparr>
           else st\<lparr>flight := Some d, loading := False\<rparr>)
      | None \<Rightarrow> st\<lparr>error := ''Failed to load flight details'', loading := False\<rparr>)"

definition tierPrice :: "booking_state \<Rightarrow> real" where
  "tierPrice st = lockedPrice st"

definition baseTotalPrice :: "booking_state \<Rightarrow> real" where
  "baseTotalPrice st = tierPrice st * real (length (passengers st))"

definition totalPrice :: "booking_state \<Rightarrow> real" where
  "totalPrice st = baseTotalPrice st + seatSurcharge st"

subsection \<open>Validation and navigation between the steps\<close>

text \<open>
  The loop of \<open>validateStep\<close> over the passengers (step 1); the result is the message of
  the first failing check, \<open>i\<close> is the index of the head of the list.
\<close>

fun validatePassengers :: "nat \<Rightarrow> passenger list \<Rightarrow> string option" where
  "validatePassengers i [] = None"
| "validatePassengers i (p # ps) =
     (if trim (passenger_name p) = []
      then Some (''Please enter name for Passenger '' @ show_nat (i + 1))
      else if (case age p of None \<Rightarrow> True | Some a \<Rightarrow> a < 1 \<or> a > 120)
      then Some (''Please enter valid age for Passenger '' @ show_nat (i + 1))
      else if gender p = []
      then Some (''Please select gender for Passenger '' @ show_nat (i + 1))
      else validatePassengers (i + 1) ps)"

text \<open>The pattern \<open>/^\d{2}\/\d{2}$/\<close>.\<close>

definition expiry_ok :: "string \<Rightarrow> bool" where
  "expiry_ok s =
     (case s of
        [a, b, c, d, e] \<Rightarrow> is_digit a \<and> is_digit b \<and> c = CHR ''/'' \<and> is_digit d \<and> is_digit e
      | _ \<Rightarrow> False)"

definition validatePayment :: "booking_state \<Rightarrow> string option" where
  "validatePayment st =
     (if paymentMethod st = ''card'' then
        (if card_number (cardDetails st) = []
            \<or> length (filter (\<lambda>c. \<not> is_space c) (card_number (cardDetails st))) \<noteq> 16
         then Some ''Please enter valid 16-digit card number''
         else if trim (card_name (cardDetails st)) = []
         then Some ''Please enter cardholder name''
         else if card_expiry (cardDetails st) = [] \<or> \<not> expiry_ok (card_expiry (cardDetails st))
         then Some ''Please enter valid expiry date (MM/YY)''
         else if card_cvv (cardDetails st) = [] \<or> length (card_cvv (cardDetails st)) < 3
         then Some ''Please enter valid CVV''
         else None)
      else if paymentMethod st = ''upi'' then
        (if upiId st = [] \<or> CHR ''@'' \<notin> set (upiId st)
         then Some ''Please enter valid UPI ID'' else None)
      else if paymentMethod st = ''netbanking'' then
        (if selectedBank st = [] then Some ''Please select a bank for Net Banking'' else None)
      else None)"

text \<open>The first failing check of \<open>validateStep\<close> at the current step, if any.\<close>

definition validation_error :: "booking_state \<Rightarrow> string option" where
  "validation_error st =
     (case (if currentStep st = 1 then validatePassengers 0 (passengers st) else None) of
        Some m \<Rightarrow> Some m
      | None \<Rightarrow>
          if currentStep st = 2 \<and> length (selectedSeats st) \<noteq> length (passengers st)
          then Some (''Please select '' @ show_nat (length (passengers st))
                     @ '' seat(s) for all passengers. Currently selected: ''
                     @ show_nat (length (selectedSeats st)))
          else if currentStep st = 4 then validatePayment st
          else None)"

text \<open>\<open>validateStep\<close>: the verdict and the state with the error message set or cleared.\<close>

definition validateStep :: "booking_state \<Rightarrow> bool \<times> booking_state" where
  "validateStep st =
     (case validation_error st of
        Some m \<Rightarrow> (False, st\<lparr>error := m\<rparr>)
      | None \<Rightarrow> (True, st\<lparr>error := []\<rparr>))"

definition handleNext :: "booking_state \<Rightarrow> booking_state" where
  "handleNext st =
     (case validateStep st of
        (True, st') \<Rightarrow> st'\<lparr>currentStep := min (currentStep st' + 1) 4\<rparr>
      | (False, st') \<Rightarrow> st')"

definition handleBack :: "booking_state \<Rightarrow> booking_state" where
  "handleBack st = st\<lparr>error := [], currentStep := max (currentStep st - 1) 1\<rparr>"

subsection \<open>Submission\<close>

text \<open>
  Modelled from the spec: the Booking entity of section 3, as the create-booking and
  pay-booking operations of section 6 return it. The backend that produces it is not part
  of the sources; the page reads \<open>booking_reference\<close>, \<open>total_fare\<close> and \<open>pnr\<close> of it,
  the bookings page \<open>pnr\<close> and \<open>status\<close>. The status is the string the JSON carries.
\<close>

record ticket =
  ticket_passenger_name :: string
  ticket_seat_id :: "int option"
  ticket_number :: "string option"

record booking =
  booking_reference :: string
  pnr :: "string option"
  status :: string
  total_fare :: real
  paid_amount :: real
  hold_expires_at :: int
  transaction_id :: "string option"
  tickets :: "ticket list"

record passenger_payload =
  pp_passenger_name :: string
  pp_age :: "int option"
  pp_gender :: string
  pp_seat_id :: "int option"

record booking_payload =
  bp_user_id :: int
  bp_flight_number :: string
  bp_departure_date :: string
  bp_passengers :: "passenger_payload list"
  bp_seat_class :: string
  bp_selected_seat_ids :: "int list"

record payment_payload =
  pay_booking_reference :: string
  amount :: real
  pay_method :: string

text \<open>
  What the page calls and cannot compute itself: the ISO date of the departure time
  (\<open>None\<close> when \<open>toISOString\<close> throws) and the two POST requests, each answering with the
  booking or failing with the optional \<open>detail\<close> of the error response.
\<close>

record backend =
  iso_date :: "int \<Rightarrow> string option"
  post_bookings :: "booking_payload \<Rightarrow> string option + booking"
  post_payments :: "payment_payload \<Rightarrow> string option + booking"

definition paymentMethodMap :: "(string \<times> string) list" where
  "paymentMethodMap =
     [(''card'', ''Card''), (''upi'', ''UPI''), (''netbanking'', ''NetBanking''), (''wallet'', ''Wallet'')]"

text \<open>\<open>selectedSeatIds[idx] || null\<close>: no id past the end of the list, and an id 0 is falsy.\<close>

definition seat_id_at :: "int list \<Rightarrow> nat \<Rightarrow> int option" where
  "seat_id_at ids idx = (if idx < length ids \<and> ids ! idx \<noteq> 0 then Some (ids ! idx) else None)"

text \<open>
  The passenger entry of the payload. \<open>parseInt(p.age)\<close> is the integer part of the number
  typed into the age field.
\<close>

definition passenger_entry :: "int list \<Rightarrow> nat \<times> passenger \<Rightarrow> passenger_payload" where
  "passenger_entry ids ip =
     \<lparr>pp_passenger_name = passenger_name (snd ip),
      pp_age = map_option (\<lambda>a. \<lfloor>a\<rfloor>) (age (snd ip)),
      pp_gender = gender (snd ip),
      pp_seat_id = seat_id_at ids (fst ip)\<rparr>"

definition bookingPayload :: "url_params \<Rightarrow> user \<Rightarrow> flight_data \<Rightarrow> string \<Rightarrow> booking_state \<Rightarrow> booking_payload" where
  "bookingPayload p u f departureDate st =
     \<lparr>bp_user_id = user_id u,
      bp_flight_number = flight_number f,
      bp_departure_date = departureDate,
      bp_passengers =
        map (passenger_entry (map seat_id (selectedSeats st)))
            (zip [0..<length (passengers st)] (passengers st)),
      bp_seat_class = seatTier p,
      bp_selected_seat_ids = map seat_id (selectedSeats st)\<rparr>"

definition paymentPayload :: "booking_state \<Rightarrow> booking \<Rightarrow> payment_payload" where
  "paymentPayload st b =
     \<lparr>pay_booking_reference = booking_reference b,
      amount = total_fare b,
      pay_method = or_str (map_of paymentMethodMap (paymentMethod st)) (paymentMethod st)\<rparr>"

text \<open>What a submission did: the requests it sent and the confirmed booking it navigated to.\<close>

record submission =
  sent_booking :: "booking_payload option"
  sent_payment :: "payment_payload option"
  confirmedBooking :: "booking option"

definition submit_failed :: "string option \<Rightarrow> booking_state \<Rightarrow> booking_state" where
  "submit_failed detail st =
     st\<lparr>error := or_str detail ''Failed to complete booking. Please try again.'',
        submitting := False\<rparr>"

text \<open>
  \<open>handleSubmit\<close> (lines 255 to 315). A missing flight or an invalid departure time throws
  inside the \<open>try\<close> block and ends in the \<open>catch\<close> branch with no \<open>detail\<close>.
\<close>

definition handleSubmit :: "backend \<Rightarrow> url_params \<Rightarrow> user \<Rightarrow> booking_state \<Rightarrow> booking_state \<times> submission" where
  "handleSubmit api p u st =
     (case validateStep st of
        (False, st') \<Rightarrow> (st', \<lparr>sent_booking = None, sent_payment = None, confirmedBooking = None\<rparr>)
      | (True, st') \<Rightarrow>
          (case flight st' of
             None \<Rightarrow> (submit_failed None st',
                       \<lparr>sent_booking = None, sent_payment = None, confirmedBooking = None\<rparr>)
           | Some f \<Rightarrow>
               (case iso_date api (departure_time f) of
                  None \<Rightarrow> (submit_failed None st',
                            \<lparr>sent_booking = None, sent_payment = None, confirmedBooking = None\<rparr>)
                | Some departureDate \<Rightarrow>
                    (case post_bookings api (bookingPayload p u f departureDate st') of
                       Inl detail \<Rightarrow>
                         (submit_failed detail st',
                          \<lparr>sent_booking = Some (bookingPayload p u f departureDate st'),
                           sent_payment = None, confirmedBooking = None\<rparr>)
                     | Inr b \<Rightarrow>
                         (case post_payments api (paymentPayload st' b) of
                            Inl detail \<Rightarrow>
                              (submit_failed detail st',
                               \<lparr>sent_booking = Some (bookingPayload p u f departureDate st'),
                                sent_payment = Some (paymentPayload st' b),
                                confirmedBooking = None\<rparr>)
                          | Inr c \<Rightarrow>
                              (st'\<lparr>submitting := False\<rparr>,
                               \<lparr>sent_booking = Some (bookingPayload p u f departureDate st'),
                                sent_payment = Some (paymentPayload st' b),
                                confirmedBooking = Some c\<rparr>))))))"

subsection \<open>The page as a transition system\<close>

text \<open>
  One event per handler the rendered page can call and per effect that can run. The
  guards are those of the JSX: the passenger form with its add and remove buttons is
  rendered at step 1 only (lines 409 to 437; a remove button exists only on a rendered
  card while there are at least two), the seat selector at step 2 only (lines 492 to
  506), the payment form at step 4 only, the Back button from step 2 on, Continue below
  step 4 and Pay at step 4 (lines 785 to 810). An event whose guard fails leaves the
  state as it is. The \<open>disabled\<close> attribute of the Add button is not relied on, since
  \<open>addPassenger\<close> makes the same check itself. Values typed into the payment form are
  arbitrary strings.
\<close>

datatype event =
    AddPassenger
  | RemovePassenger nat
  | PassengerChange nat field_change
  | Prefill user
  | FlightFetched "flight_data option"
  | SeatSelect "seat list"
  | Next
  | Back
  | SetPaymentMethod string
  | SetCardDetails card
  | SetUpiId string
  | SetSelectedBank string
  | Submit user

fun step :: "backend \<Rightarrow> url_params \<Rightarrow> booking_state \<Rightarrow> event \<Rightarrow> booking_state" where
  "step api p st AddPassenger = (if currentStep st = 1 then addPassenger st else st)"
| "step api p st (RemovePassenger i) =
     (if currentStep st = 1 \<and> length (passengers st) > 1 \<and> i < length (passengers st)
      then removePassenger i st else st)"
| "step api p st (PassengerChange i f) =
     (if currentStep st = 1 then handlePassengerChange i f st else st)"
| "step api p st (Prefill u) = prefill u st"
| "step api p st (FlightFetched r) = fetchFlight p r st"
| "step api p st (SeatSelect seats) =
     (if currentStep st = 2 then handleSeatSelect seats st else st)"
| "step api p st Next = (if currentStep st < 4 then handleNext st else st)"
| "step api p st Back = (if currentStep st > 1 \<and> \<not> submitting st then handleBack st else st)"
| "step api p st (SetPaymentMethod m) =
     (if currentStep st = 4 then st\<lparr>paymentMethod := m\<rparr> else st)"
| "step api p st (SetCardDetails c) =
     (if currentStep st = 4 then st\<lparr>cardDetails := c\<rparr> else st)"
| "step api p st (SetUpiId v) = (if currentStep st = 4 then st\<lparr>upiId := v\<rparr> else st)"
| "step api p st (SetSelectedBank v) =
     (if currentStep st = 4 then st\<lparr>selectedBank := v\<rparr> else st)"
| "step api p st (Submit u) =
     (if currentStep st \<ge> 4 \<and> \<not> submitting st then fst (handleSubmit api p u st) else st)"

text \<open>The state of the page after a sequence of events from the initial render.\<close>

definition run :: "backend \<Rightarrow> url_params \<Rightarrow> event list \<Rightarrow> booking_state" where
  "run api p evs = foldl (step api p) (initial_state p) evs"

section \<open>Payment and confirmation on the server\<close>

datatype pay_error = HoldExpired | InvalidState | AmountMismatch | PaymentFailed | NotFound

text \<open>
  Modelled from the spec: the payment and confirmation step of section 4.4.2, which lives
  in the backend and is not part of the sources. \<open>now\<close> is the time of the request,
  \<open>adapter_ok\<close> the answer of the payment adapter, \<open>txn\<close> and \<open>new_pnr\<close> the transaction id
  and the PNR issued on success. The result is the error, if any, and the booking row
  after the transaction.
\<close>

definition pay_booking :: "int \<Rightarrow> bool \<Rightarrow> string \<Rightarrow> string \<Rightarrow> payment_payload \<Rightarrow> booking \<Rightarrow> pay_error option \<times> booking" where
  "pay_booking now adapter_ok txn new_pnr req b =
     (if pay_booking_reference req \<noteq> booking_reference b then (Some NotFound, b)
      else if status b \<noteq> ''Held'' \<and> status b \<noteq> ''PendingPayment'' then (Some InvalidState, b)
      else if \<not> now < hold_expires_at b then (Some HoldExpired, b)
      else if amount req < total_fare b then (Some AmountMismatch, b)
      else if \<not> adapter_ok then (Some PaymentFailed, b\<lparr>status := ''PendingPayment''\<rparr>)
      else (None, b\<lparr>status := ''Confirmed'', paid_amount := amount req,
                    transaction_id := Some txn, pnr := Some new_pnr\<rparr>))"

text \<open>
  Modelled from the spec: the pay-booking operation of section 6 as the page sees it,
  answering with the confirmed booking or with an error response.
\<close>

definition payments_endpoint :: "int \<Rightarrow> bool \<Rightarrow> string \<Rightarrow> string \<Rightarrow> booking \<Rightarrow> payment_payload \<Rightarrow> string option + booking" where
  "payments_endpoint now adapter_ok txn new_pnr held req =
     (case pay_booking now adapter_ok txn new_pnr req held of
        (None, b) \<Rightarrow> Inr b
      | (Some e, b) \<Rightarrow> Inl None)"

section \<open>The pricing engine\<close>

datatype tier = Economy | EconomyFlex | Business | First

datatype pricing_error = InvalidArgument

text \<open>Modelled from the spec: the fare snapshot of the glossary, the input of the engine.\<close>

record fare_snapshot =
  base_fare :: "tier \<Rightarrow> real option"
  seats_available :: int
  seats_total :: int
  hours_until_departure :: real
  demand_index :: real

text \<open>Modelled from the spec: the table \<open>class_factor\<close> of section 4.1.\<close>

fun class_factor :: "tier \<Rightarrow> real" where
  "class_factor Economy = 1"
| "class_factor EconomyFlex = 12 / 10"
| "class_factor Business = 18 / 10"
| "class_factor First = 25 / 10"

text \<open>Modelled from the spec: the piecewise demand curve of section 4.1.\<close>

definition f_demand :: "real \<Rightarrow> real" where
  "f_demand d =
     (if d < 25 then 1 else if d < 50 then 115 / 100 else if d < 75 then 135 / 100 else 16 / 10)"

text \<open>
  Modelled from the spec: the pricing engine of section 4.1
  (backend/app/services/pricing_engine.py, not part of the sources). The spec leaves the
  inventory and time curves to the implementer, so they are the parameters \<open>f_inv\<close> and
  \<open>f_time\<close>. Negative inputs and a tier missing from the base-fare map are rejected; a
  departure in the past returns the cap.
\<close>

definition PricingEngine :: "(real \<Rightarrow> real) \<Rightarrow> (real \<Rightarrow> real) \<Rightarrow> fare_snapshot \<Rightarrow> tier \<Rightarrow> pricing_error + real" where
  "PricingEngine f_inv f_time s t =
     (case base_fare s t of
        None \<Rightarrow> Inl InvalidArgument
      | Some b \<Rightarrow>
          if b < 0 \<or> seats_available s < 0 \<or> seats_total s \<le> 0
             \<or> demand_index s < 0 \<or> demand_index s > 100
          then Inl InvalidArgument
          else if hours_until_departure s < 0 then Inr (10 * b)
          else
            let inventory_factor = f_inv (1 - real_of_int (seats_available s) / real_of_int (seats_total s));
                time_factor = f_time (hours_until_departure s);
                demand_factor = f_demand (demand_index s);
                fare = b * inventory_factor * time_factor * demand_factor * class_factor t;
                fare = min fare (10 * b);
                fare = max fare b
            in Inr fare)"

section \<open>The flight results page (src/frontend/src/pages/FlightsPage.jsx)\<close>

record seat_class =
  cls_value :: string
  cls_label :: string
  cls_short :: string

definition SEAT_CLASSES :: "seat_class list" where
  "SEAT_CLASSES =
     [\<lparr>cls_value = ''ECONOMY'', cls_label = ''Economy'', cls_short = ''ECO''\<rparr>,
      \<lparr>cls_value = ''BUSINESS'', cls_label = ''Business'', cls_short = ''BUS''\<rparr>,
      \<lparr>cls_value = ''FIRST'', cls_label = ''First'', cls_short = ''FST''\<rparr>]"

text \<open>
  \<open>getFlightPrice\<close>: the entry of the price map when there is a truthy one, else the first
  truthy of the flight's own prices, else 0.
\<close>

definition getFlightPrice :: "flight_data \<Rightarrow> string \<Rightarrow> real" where
  "getFlightPrice f t =
     (case price_map f of
        None \<Rightarrow> basePrice f
      | Some pm \<Rightarrow> if truthy_num (map_of pm t) then or_zero (map_of pm t) else basePrice f)"

text \<open>
  The comparator handed to \<open>sort\<close> (lines 136 to 149); \<open>selectedClasses\<close> maps a flight id
  to the class chosen on its card.
\<close>

definition compareFlights :: "string \<Rightarrow> (int \<Rightarrow> string option) \<Rightarrow> flight_data \<Rightarrow> flight_data \<Rightarrow> real" where
  "compareFlights sortBy selectedClasses a b =
     (if sortBy = ''price'' then
        getFlightPrice a (or_str (selectedClasses (flight_id a)) ''ECONOMY'')
        - getFlightPrice b (or_str (selectedClasses (flight_id b)) ''ECONOMY'')
      else if sortBy = ''duration'' then
        real_of_int (arrival_time a - departure_time a)
        - real_of_int (arrival_time b - departure_time b)
      else if sortBy = ''departure'' then real_of_int (departure_time a - departure_time b)
      else 0)"

text \<open>
  \<open>Array.prototype.sort\<close> with a comparator. The language requires the sort to be stable
  and, for a consistent comparator, to put \<open>a\<close> before \<open>b\<close> whenever \<open>cmp a b < 0\<close>;
  insertion from the right end computes that order.
\<close>

fun insert_by :: "('a \<Rightarrow> 'a \<Rightarrow> real) \<Rightarrow> 'a \<Rightarrow> 'a list \<Rightarrow> 'a list" where
  "insert_by cmp x [] = [x]"
| "insert_by cmp x (y # ys) = (if cmp x y \<le> 0 then x # y # ys else y # insert_by cmp x ys)"

definition js_sort :: "('a \<Rightarrow> 'a \<Rightarrow> real) \<Rightarrow> 'a list \<Rightarrow> 'a list" where
  "js_sort cmp xs = foldr (insert_by cmp) xs []"

definition filteredFlights :: "string \<Rightarrow> string \<Rightarrow> (int \<Rightarrow> string option) \<Rightarrow> flight_data list \<Rightarrow> flight_data list" where
  "filteredFlights sortBy filterAirline selectedClasses flights =
     js_sort (compareFlights sortBy selectedClasses)
       (filter (\<lambda>f. filterAirline = ''all'' \<or> airline f = filterAirline) flights)"

text \<open>The primary key the comparator compares for each of the three sort keys.\<close>

definition primary_key :: "string \<Rightarrow> (int \<Rightarrow> string option) \<Rightarrow> flight_data \<Rightarrow> real" where
  "primary_key sortBy selectedClasses f =
     (if sortBy = ''price'' then getFlightPrice f (or_str (selectedClasses (flight_id f)) ''ECONOMY'')
      else if sortBy = ''duration'' then real_of_int (arrival_time f - departure_time f)
      else if sortBy = ''departure'' then real_of_int (departure_time f)
      else 0)"

section \<open>The home search form (src/frontend/src/components/home/FlightSearchForm.jsx)\<close>

text \<open>The options of the \<open>travelClass\<close> select (lines 186 to 189): value and label.\<close>

definition travelClass_options :: "(string \<times> string) list" where
  "travelClass_options =
     [(''ECONOMY'', ''Economy''), (''ECONOMY_FLEX'', ''Economy Flex''),
      (''BUSINESS'', ''Business''), (''FIRST'', ''First Class'')]"

section \<open>The bookings page (src/frontend/src/pages/MyBookingsPage.jsx)\<close>

record 'a bookings_state =
  bookings :: "'a booking_scheme list"
  cancellingId :: "string option"

text \<open>
  \<open>handleCancelBooking\<close> (lines 52 to 68). \<open>confirmed\<close> is the answer to the confirm dialog,
  \<open>api_delete\<close> the DELETE request, failing with the optional \<open>detail\<close> of the response.
  The result is the state and the text of the alert, if one is shown.
\<close>

definition handleCancelBooking :: "bool \<Rightarrow> (string option \<Rightarrow> string option + unit) \<Rightarrow> string option \<Rightarrow> 'a bookings_state \<Rightarrow> 'a bookings_state \<times> string option" where
  "handleCancelBooking confirmed api_delete pnr0 st =
     (if \<not> confirmed then (st, None)
      else case api_delete pnr0 of
        Inr _ \<Rightarrow>
          (st\<lparr>bookings := map (\<lambda>b. if pnr b = pnr0 then b\<lparr>status := ''Cancelled''\<rparr> else b) (bookings st),
              cancellingId := None\<rparr>, None)
      | Inl detail \<Rightarrow>
          (st\<lparr>cancellingId := None\<rparr>, Some (or_str detail ''Failed to cancel booking'')))"

section \<open>The PNR status check of the navigation bar (src/unnamed/part_007)\<close>




section \<open>Invariants of the booking page\<close>

text \<open>
  The accumulated surcharge is that of the seats now selected, the step stays between 1
  and 4, and from the review step on there are as many selected seats as passengers.
\<close>

definition seats_inv :: "booking_state \<Rightarrow> bool" where
  "seats_inv st \<longleftrightarrow>
     seatSurcharge st = totalSurcharge (selectedSeats st)
     \<and> 1 \<le> currentStep st \<and> currentStep st \<le> 4
     \<and> (currentStep st \<ge> 3 \<longrightarrow> length (selectedSeats st) = length (passengers st))"



section \<open>Sample inputs\<close>

text \<open>
  A booking of one passenger on flight 6E123 at 5000 per passenger, with a window seat at
  a surcharge of 150, paid by UPI; the backend of \<open>paying_backend\<close> holds the booking at 5150
  and confirms it as section 4.4.2 describes.
\<close>

definition sample_backend :: backend where
  "sample_backend =
     \<lparr>iso_date = (\<lambda>t. Some ''2025-12-25''),
      post_bookings = (\<lambda>req. Inl None),
      post_payments = (\<lambda>req. Inl None)\<rparr>"

definition sample_params :: url_params where
  "sample_params = \<lparr>flightId = Some ''7'', passengersCount = Some 1, seatTier = ''ECONOMY'', urlPrice = 5000\<rparr>"


definition sample_seat :: seat where
  "sample_seat = \<lparr>seat_id = 12, surcharge = Some 150\<rparr>"

definition sample_flight :: flight_data where
  "sample_flight =
     \<lparr>flight_id = 7, flight_number = ''6E123'', airline = ''IndiGo'',
      departure_time = 1766650000000, arrival_time = 1766657200000,
      price_map = None, dynamic_price = Some 5000, current_price = None, base_price = Some 4000\<rparr>"


definition sample_hold :: booking where
  "sample_hold =
     \<lparr>booking_reference = ''BR-1'', pnr = None, status = ''Held'', total_fare = 5150,
      paid_amount = 0, hold_expires_at = 900, transaction_id = None, tickets = []\<rparr>"

definition sample_user :: user where
  "sample_user = \<lparr>user_id = 3, first_name = ''A'', last_name = ''B''\<rparr>"

definition sample_events :: "event list" where
  "sample_events =
     [PassengerChange 0 (Set_passenger_name ''A B''), PassengerChange 0 (Set_age (Some 30)),
      PassengerChange 0 (Set_gender ''M''), Next, SeatSelect [sample_seat], Next]"

definition paying_events :: "event list" where
  "paying_events =
     FlightFetched (Some sample_flight) # sample_events
       @ [Next, SetPaymentMethod ''upi'', SetUpiId ''a@b'']"

definition paying_backend :: backend where
  "paying_backend =
     sample_backend\<lparr>post_bookings := (\<lambda>req. Inr sample_hold),
                    post_payments := payments_endpoint 100 True ''TXN1'' ''ABC234'' sample_hold\<rparr>"



definition pair_params :: url_params where
  "pair_params = \<lparr>flightId = Some ''7'', passengersCount = Some 2, seatTier = ''ECONOMY'', urlPrice = 5000\<rparr>"

definition plain_seat :: seat where
  "plain_seat = \<lparr>seat_id = 13, surcharge = None\<rparr>"

text \<open>Two passengers choose their seats and go back to the passenger form.\<close>

definition pair_events :: "event list" where
  "pair_events =
     [PassengerChange 0 (Set_passenger_name ''A B''), PassengerChange 0 (Set_age (Some 30)),
      PassengerChange 0 (Set_gender ''M''),
      PassengerChange 1 (Set_passenger_name ''C D''), PassengerChange 1 (Set_age (Some 28)),
      PassengerChange 1 (Set_gender ''F''),
      Next, SeatSelect [sample_seat, plain_seat], Back]"

text \<open>
  Two fare snapshots: a quiet flight three days ahead, and a nearly full one two hours
  ahead under extreme demand. The sample curves raise the fare by the fill ratio and
  triple it inside the last day.
\<close>

definition calm_snapshot :: fare_snapshot where
  "calm_snapshot =
     \<lparr>base_fare = (\<lambda>t. if t = Economy then Some 5000 else None),
      seats_available = 3, seats_total = 3, hours_until_departure = 72, demand_index = 10\<rparr>"

definition busy_snapshot :: fare_snapshot where
  "busy_snapshot =
     \<lparr>base_fare = (\<lambda>t. if t = First then Some 5000 else None),
      seats_available = 1, seats_total = 4, hours_until_departure = 2, demand_index = 95\<rparr>"

definition sample_f_inv :: "real \<Rightarrow> real" where
  "sample_f_inv r = 1 + r"

definition sample_f_time :: "real \<Rightarrow> real" where
  "sample_f_time h = (if h < 24 then 3 else 1)"

text \<open>
  Two flights with the same times and the same Economy price, in the order the server
  lists them, and no class chosen on any card yet.
\<close>

definition no_selection :: "int \<Rightarrow> string option" where
  "no_selection = (\<lambda>i. None)"

definition listed_first :: flight_data where
  "listed_first =
     \<lparr>flight_id = 2, flight_number = ''AI202'', airline = ''Air India'',
      departure_time = 1766650000000, arrival_time = 1766657200000,
      price_map = Some [(''ECONOMY'', 5000)], dynamic_price = None, current_price = None,
      base_price = Some 4000\<rparr>"

definition listed_second :: flight_data where
  "listed_second =
     \<lparr>flight_id = 1, flight_number = ''6E123'', airline = ''IndiGo'',
      departure_time = 1766650000000, arrival_time = 1766657200000,
      price_map = Some [(''ECONOMY'', 5000)], dynamic_price = None, current_price = None,
      base_price = Some 4000\<rparr>"

text \<open>The bookings list of a user: the booking confirmed above and a later hold.\<close>

definition confirmed_booking :: booking where
  "confirmed_booking =
     sample_hold\<lparr>status := ''Confirmed'', paid_amount := 5150,
                 transaction_id := Some ''TXN1'', pnr := Some ''ABC234''\<rparr>"

definition other_booking :: booking where
  "other_booking =
     \<lparr>booking_reference = ''BR-2'', pnr = Some ''XYZ789'', status = ''Confirmed'',
      total_fare = 7000, paid_amount = 7000, hold_expires_at = 1800,
      transaction_id = Some ''TXN2'', tickets = []\<rparr>"

definition my_bookings :: "unit bookings_state" where
  "my_bookings = \<lparr>bookings = [confirmed_booking, other_booking], cancellingId = None\<rparr>"

definition delete_ok :: "string option \<Rightarrow> string option + unit" where
  "delete_ok q = Inr ()"

definition delete_refused :: "string option \<Rightarrow> string option + unit" where
  "delete_refused q = Inl (Some ''Booking cannot be cancelled'')"



section \<open>Properties of the booking page\<close>

subsection \<open>Invariants of every reachable state\<close>

lemma foldl_invariant:
  assumes "P s" and "\<And>s e. P s \<Longrightarrow> P (f s e)"
  shows "P (foldl f s es)"
  using assms(1) by (induction es arbitrary: s) (simp_all add: assms(2))

lemma validateStep_fields:
  "passengers (snd (validateStep st)) = passengers st"
  "selectedSeats (snd (validateStep st)) = selectedSeats st"
  "seatSurcharge (snd (validateStep st)) = seatSurcharge st"
  "lockedPrice (snd (validateStep st)) = lockedPrice st"
  "currentStep (snd (validateStep st)) = currentStep st"
  by (simp_all add: validateStep_def split: option.splits)

lemma handleSubmit_fields:
  "passengers (fst (handleSubmit api p u st)) = passengers st"
  "selectedSeats (fst (handleSubmit api p u st)) = selectedSeats st"
  "seatSurcharge (fst (handleSubmit api p u st)) = seatSurcharge st"
  "lockedPrice (fst (handleSubmit api p u st)) = lockedPrice st"
  "currentStep (fst (handleSubmit api p u st)) = currentStep st"
  by (simp_all add: handleSubmit_def validateStep_def submit_failed_def
      split: option.splits sum.splits prod.splits)

lemma handleNext_seats_inv: "seats_inv st \<Longrightarrow> seats_inv (handleNext st)"
  by (auto simp: seats_inv_def handleNext_def validateStep_def validation_error_def
      split: option.splits if_splits)

lemma step_seats_inv: "seats_inv st \<Longrightarrow> seats_inv (step api p st e)"
proof (cases e)
  case Next
  then show "seats_inv st \<Longrightarrow> seats_inv (step api p st e)"
    using handleNext_seats_inv by simp
next
  case (Submit u)
  then show "seats_inv st \<Longrightarrow> seats_inv (step api p st e)"
    by (simp add: seats_inv_def handleSubmit_fields)
qed (auto simp: seats_inv_def addPassenger_def removePassenger_def handlePassengerChange_def
      prefill_def fetchFlight_def handleSeatSelect_def handleBack_def totalSurcharge_def
      split: list.splits option.splits)

lemma initial_seats_inv: "seats_inv (initial_state p)"
  by (simp add: seats_inv_def initial_state_def totalSurcharge_def)

lemma run_seats_inv: "seats_inv (run api p evs)"
  unfolding run_def by (rule foldl_invariant) (simp_all add: initial_seats_inv step_seats_inv)








lemma step_resets_seats:
  assumes "length (passengers (step api p st e)) \<noteq> length (passengers st)"
  shows "selectedSeats (step api p st e) = [] \<and> seatSurcharge (step api p st e) = 0"
proof (cases e)
  case Next
  then show ?thesis
    using assms validateStep_fields(1) [of st]
    by (auto simp: handleNext_def split: prod.splits bool.splits if_splits)
next
  case (Submit u)
  then show ?thesis using assms by (auto simp: handleSubmit_fields split: if_splits)
qed (use assms in \<open>auto simp: addPassenger_def removePassenger_def handlePassengerChange_def
      prefill_def fetchFlight_def handleSeatSelect_def handleBack_def
      split: list.splits option.splits if_splits\<close>)

subsection \<open>The computed price\<close>


subsection \<open>Submission\<close>




lemma handleSubmit_payload_seats:
  assumes "sent_booking (snd (handleSubmit api p u st)) = Some bp"
  shows "length (bp_passengers bp) = length (passengers st)
         \<and> bp_selected_seat_ids bp = map seat_id (selectedSeats st)"
  using assms validateStep_fields(1,2) [of st]
  by (auto simp: handleSubmit_def bookingPayload_def
      split: prod.splits bool.splits option.splits sum.splits)

lemma handleSubmit_payload_entries:
  assumes "sent_booking (snd (handleSubmit api p u st)) = Some bp"
    and "idx < length (bp_passengers bp)"
    and "idx < length (bp_selected_seat_ids bp)"
    and "bp_selected_seat_ids bp ! idx \<noteq> 0"
  shows "pp_seat_id (bp_passengers bp ! idx) = Some (bp_selected_seat_ids bp ! idx)"
proof -
  obtain f dd st' where bp: "bp = bookingPayload p u f dd st'"
    using assms(1)
    by (auto simp: handleSubmit_def
        split: prod.splits bool.splits option.splits sum.splits)
  from assms(2) have i: "idx < length (passengers st')"
    by (simp add: bp bookingPayload_def)
  then have "bp_passengers bp ! idx
             = passenger_entry (map seat_id (selectedSeats st')) (idx, passengers st' ! idx)"
    by (simp add: bp bookingPayload_def)
  with assms(3,4) show ?thesis
    by (simp add: bp bookingPayload_def passenger_entry_def seat_id_at_def)
qed

subsection \<open>The sample booking, evaluated\<close>


lemma paying_run:
  "run paying_backend sample_params paying_events =
     (initial_state sample_params)
       \<lparr>currentStep := 4, flight := Some sample_flight, loading := False,
        passengers := [\<lparr>passenger_name = ''A B'', age = Some 30, gender = ''M''\<rparr>],
        selectedSeats := [sample_seat], seatSurcharge := 150,
        paymentMethod := ''upi'', upiId := ''a@b''\<rparr>"
  by (simp add: run_def paying_events_def sample_events_def sample_params_def initial_state_def
      initial_passengers_def blank_passenger_def handlePassengerChange_def handleNext_def
      validateStep_def validation_error_def trim_def is_space_def handleSeatSelect_def
      totalSurcharge_def or_zero_def sample_seat_def fetchFlight_def)

lemma paying_submit:
  "snd (handleSubmit paying_backend sample_params sample_user
          (run paying_backend sample_params paying_events)) =
     \<lparr>sent_booking = Some
        \<lparr>bp_user_id = 3, bp_flight_number = ''6E123'', bp_departure_date = ''2025-12-25'',
         bp_passengers = [\<lparr>pp_passenger_name = ''A B'', pp_age = Some 30, pp_gender = ''M'',
                           pp_seat_id = Some 12\<rparr>],
         bp_seat_class = ''ECONOMY'', bp_selected_seat_ids = [12]\<rparr>,
      sent_payment = Some \<lparr>pay_booking_reference = ''BR-1'', amount = 5150, pay_method = ''UPI''\<rparr>,
      confirmedBooking = Some (sample_hold\<lparr>status := ''Confirmed'', paid_amount := 5150,
                                 transaction_id := Some ''TXN1'', pnr := Some ''ABC234''\<rparr>)\<rparr>"
  unfolding paying_run
  by (simp add: handleSubmit_def validateStep_def validation_error_def validatePayment_def
      initial_state_def paying_backend_def sample_backend_def sample_flight_def
      bookingPayload_def passenger_entry_def seat_id_at_def sample_seat_def sample_user_def
      sample_params_def paymentPayload_def sample_hold_def paymentMethodMap_def or_str_def
      payments_endpoint_def pay_booking_def)

lemma pair_run:
  "run sample_backend pair_params pair_events =
     (initial_state pair_params)
       \<lparr>currentStep := 1,
        passengers := [\<lparr>passenger_name = ''A B'', age = Some 30, gender = ''M''\<rparr>,
                       \<lparr>passenger_name = ''C D'', age = Some 28, gender = ''F''\<rparr>],
        selectedSeats := [sample_seat, plain_seat], seatSurcharge := 150\<rparr>"
  by (simp add: run_def pair_events_def pair_params_def initial_state_def
      initial_passengers_def blank_passenger_def handlePassengerChange_def handleNext_def
      validateStep_def validation_error_def trim_def is_space_def handleSeatSelect_def
      totalSurcharge_def or_zero_def sample_seat_def plain_seat_def handleBack_def
      numeral_2_eq_2)

subsection \<open>The fare is frozen\<close>




subsection \<open>The total\<close>



subsection \<open>The class multipliers\<close>



subsection \<open>The passenger limit\<close>




subsection \<open>Seats and passengers\<close>

text \<open>
  Claim C9. When \<open>addPassenger\<close> or \<open>removePassenger\<close> changes the passenger list, the seat
  selection is empty and the surcharge 0 afterwards; an event that changes the number of
  passengers leaves a total without any surcharge; in every reachable state the
  surcharge is that of the seats now selected; and the booking request sent from the
  payment step carries as many selected seat ids as passengers, one passenger entry per
  passenger of the page, each entry with the id of its seat (an id 0 apart, which the
  page sends as null).
\<close>

theorem seats_follow_passengers:
  "(passengers (addPassenger st) \<noteq> passengers st
      \<longrightarrow> selectedSeats (addPassenger st) = [] \<and> seatSurcharge (addPassenger st) = 0)
   \<and> (passengers (removePassenger i st) \<noteq> passengers st
      \<longrightarrow> selectedSeats (removePassenger i st) = [] \<and> seatSurcharge (removePassenger i st) = 0)
   \<and> (length (passengers (step api p st e)) \<noteq> length (passengers st)
      \<longrightarrow> selectedSeats (step api p st e) = []
          \<and> totalPrice (step api p st e) = baseTotalPrice (step api p st e))
   \<and> seatSurcharge (run api p evs) = totalSurcharge (selectedSeats (run api p evs))
   \<and> (\<forall>bp. currentStep (run api p evs) = 4
            \<and> sent_booking (snd (handleSubmit api p u (run api p evs))) = Some bp
         \<longrightarrow> length (bp_selected_seat_ids bp) = length (bp_passengers bp)
             \<and> length (bp_passengers bp) = length (passengers (run api p evs))
             \<and> (\<forall>idx < length (bp_passengers bp).
                    bp_selected_seat_ids bp ! idx \<noteq> 0
                    \<longrightarrow> pp_seat_id (bp_passengers bp ! idx)
                        = Some (bp_selected_seat_ids bp ! idx)))"
proof (intro conjI allI impI)
  assume "passengers (addPassenger st) \<noteq> passengers st"
  then show "selectedSeats (addPassenger st) = []" and "seatSurcharge (addPassenger st) = 0"
    by (auto simp: addPassenger_def split: if_splits)
next
  assume "passengers (removePassenger i st) \<noteq> passengers st"
  then show "selectedSeats (removePassenger i st) = []"
    and "seatSurcharge (removePassenger i st) = 0"
    by (auto simp: removePassenger_def split: if_splits)
next
  assume a: "length (passengers (step api p st e)) \<noteq> length (passengers st)"
  from step_resets_seats [OF a] show "selectedSeats (step api p st e) = []" by simp
  from step_resets_seats [OF a]
  show "totalPrice (step api p st e) = baseTotalPrice (step api p st e)"
    by (simp add: totalPrice_def)
next
  show "seatSurcharge (run api p evs) = totalSurcharge (selectedSeats (run api p evs))"
    using run_seats_inv [of api p evs] by (simp add: seats_inv_def)
next
  fix bp
  assume h: "currentStep (run api p evs) = 4
     \<and> sent_booking (snd (handleSubmit api p u (run api p evs))) = Some bp"
  then have "length (bp_passengers bp) = length (passengers (run api p evs))"
    and "bp_selected_seat_ids bp = map seat_id (selectedSeats (run api p evs))"
    using handleSubmit_payload_seats [of api p u "run api p evs" bp] by simp_all
  moreover have "length (selectedSeats (run api p evs)) = length (passengers (run api p evs))"
    using run_seats_inv [of api p evs] h by (simp add: seats_inv_def)
  ultimately show n: "length (bp_selected_seat_ids bp) = length (bp_passengers bp)"
    and "length (bp_passengers bp) = length (passengers (run api p evs))"
    by simp_all
  fix idx
  assume "idx < length (bp_passengers bp)" and "bp_selected_seat_ids bp ! idx \<noteq> 0"
  with h n show "pp_seat_id (bp_passengers bp ! idx) = Some (bp_selected_seat_ids bp ! idx)"
    using handleSubmit_payload_entries [of api p u "run api p evs" bp idx] by simp
qed

theorem seats_follow_passengers_witness:
  "passengers (addPassenger (run sample_backend pair_params pair_events))
     \<noteq> passengers (run sample_backend pair_params pair_events)
   \<and> selectedSeats (addPassenger (run sample_backend pair_params pair_events)) = []
   \<and> seatSurcharge (addPassenger (run sample_backend pair_params pair_events)) = 0
   \<and> passengers (removePassenger 0 (run sample_backend pair_params pair_events))
     \<noteq> passengers (run sample_backend pair_params pair_events)
   \<and> selectedSeats (removePassenger 0 (run sample_backend pair_params pair_events)) = []
   \<and> seatSurcharge (removePassenger 0 (run sample_backend pair_params pair_events)) = 0
   \<and> length (passengers (step sample_backend pair_params
                (run sample_backend pair_params pair_events) (RemovePassenger 0)))
     \<noteq> length (passengers (run sample_backend pair_params pair_events))
   \<and> totalPrice (run sample_backend pair_params pair_events) = 10150
   \<and> totalPrice (step sample_backend pair_params
        (run sample_backend pair_params pair_events) (RemovePassenger 0)) = 5000
   \<and> currentStep (run paying_backend sample_params paying_events) = 4
   \<and> map (\<lambda>bp. (bp_selected_seat_ids bp, map pp_seat_id (bp_passengers bp)))
        (case sent_booking (snd (handleSubmit paying_backend sample_params sample_user
                 (run paying_backend sample_params paying_events))) of
           None \<Rightarrow> [] | Some bp \<Rightarrow> [bp])
     = [([12], [Some 12])]"
  using seats_follow_passengers [of "run sample_backend pair_params pair_events" 0
      sample_backend pair_params "RemovePassenger 0" pair_events sample_user]
    seats_follow_passengers [of "run sample_backend pair_params pair_events" 0
      paying_backend sample_params "RemovePassenger 0" paying_events sample_user]
  unfolding pair_run paying_submit
  unfolding paying_run
  by (simp add: addPassenger_def removePassenger_def remove_index_def initial_state_def
      pair_params_def sample_params_def totalPrice_def baseTotalPrice_def tierPrice_def
      blank_passenger_def upt_rec)

section \<open>Properties of the pricing engine\<close>

text \<open>
  Claim C5. Whenever the pricing engine returns a fare for a tier, the fare is at least
  the base fare of the tier and at most ten times it; and it does return a fare for
  every snapshot with a non-negative base fare for the tier, non-negative seats
  available, a positive seat total and a demand index between 0 and 100, whatever the
  inventory and time curves are.
\<close>

theorem pricing_bounds:
  "(PricingEngine f_inv f_time s t = Inr fare \<and> base_fare s t = Some b
      \<longrightarrow> b \<le> fare \<and> fare \<le> 10 * b)
   \<and> (base_fare s t = Some b \<and> 0 \<le> b \<and> 0 \<le> seats_available s \<and> 0 < seats_total s
        \<and> 0 \<le> demand_index s \<and> demand_index s \<le> 100
      \<longrightarrow> (\<exists>fare. PricingEngine f_inv f_time s t = Inr fare))"
  by (auto simp: PricingEngine_def Let_def split: if_splits)

theorem pricing_bounds_witness:
  "PricingEngine sample_f_inv sample_f_time calm_snapshot Economy = Inr 5000
   \<and> base_fare calm_snapshot Economy = Some 5000
   \<and> (5000::real) \<le> 5000 \<and> (5000::real) \<le> 10 * 5000
   \<and> PricingEngine sample_f_inv sample_f_time busy_snapshot First = Inr 50000
   \<and> base_fare busy_snapshot First = Some 5000
   \<and> (0::int) \<le> seats_available busy_snapshot \<and> 0 < seats_total busy_snapshot
   \<and> 0 \<le> demand_index busy_snapshot \<and> demand_index busy_snapshot \<le> 100"
  using pricing_bounds [of sample_f_inv sample_f_time calm_snapshot Economy 5000 5000]
    pricing_bounds [of sample_f_inv sample_f_time busy_snapshot First 50000 5000]
  by (simp add: PricingEngine_def calm_snapshot_def busy_snapshot_def sample_f_inv_def
      sample_f_time_def f_demand_def Let_def)

section \<open>Properties of the flight results page\<close>

subsection \<open>Order of the results\<close>

lemma insert_by_insort_key:
  assumes "\<And>a b. cmp a b \<le> 0 \<longleftrightarrow> k a \<le> k b"
  shows "insert_by cmp x xs = insort_key k x xs"
  by (induction xs) (simp_all add: assms)

lemma js_sort_sort_key:
  assumes "\<And>a b. cmp a b \<le> 0 \<longleftrightarrow> k a \<le> k b"
  shows "js_sort cmp xs = sort_key k xs"
  unfolding js_sort_def sort_key_def
  by (induction xs) (simp_all add: insert_by_insort_key [of cmp k, OF assms])

lemma compareFlights_key:
  "compareFlights sortBy sel a b \<le> 0 \<longleftrightarrow> primary_key sortBy sel a \<le> primary_key sortBy sel b"
  by (simp add: compareFlights_def primary_key_def)

lemma filteredFlights_sort_key:
  "filteredFlights sortBy fa sel flights =
     sort_key (primary_key sortBy sel) (filter (\<lambda>f. fa = ''all'' \<or> airline f = fa) flights)"
  unfolding filteredFlights_def
  by (rule js_sort_sort_key) (rule compareFlights_key)

text \<open>
  Claim C6, as the code has it. The list shown holds the flights of the chosen airline,
  in ascending order of the primary key (price of the class chosen on the card,
  duration or departure time); flights that are equal on the primary key keep the order
  in which the server returned them. The flight id is not compared.
\<close>

theorem ties_keep_server_order:
  "sorted (map (primary_key sortBy sel) (filteredFlights sortBy fa sel flights))
   \<and> set (filteredFlights sortBy fa sel flights)
       = set (filter (\<lambda>f. fa = ''all'' \<or> airline f = fa) flights)
   \<and> length (filteredFlights sortBy fa sel flights)
       = length (filter (\<lambda>f. fa = ''all'' \<or> airline f = fa) flights)
   \<and> filter (\<lambda>f. primary_key sortBy sel f = k) (filteredFlights sortBy fa sel flights)
       = filter (\<lambda>f. primary_key sortBy sel f = k)
           (filter (\<lambda>f. fa = ''all'' \<or> airline f = fa) flights)"
  unfolding filteredFlights_sort_key
  by (simp add: sort_key_stable)

text \<open>
  Two flights with the same price, duration and departure time, returned by the server
  with id 2 before id 1, are shown in that order under each of the three sort keys: not
  in ascending order of id.
\<close>

theorem equal_price_not_in_id_order:
  "primary_key ''price'' no_selection listed_first = primary_key ''price'' no_selection listed_second
   \<and> map flight_id (filteredFlights ''price'' ''all'' no_selection [listed_first, listed_second]) = [2, 1]
   \<and> map flight_id (filteredFlights ''duration'' ''all'' no_selection [listed_first, listed_second]) = [2, 1]
   \<and> map flight_id (filteredFlights ''departure'' ''all'' no_selection [listed_first, listed_second]) = [2, 1]"
  by (simp add: filteredFlights_def js_sort_def compareFlights_def primary_key_def
      getFlightPrice_def listed_first_def listed_second_def no_selection_def or_str_def
      truthy_num_def or_zero_def)

subsection \<open>Cabin classes offered\<close>

text \<open>
  Claim C8, as the code has it. Every class that can be selected on the results page
  (ECONOMY, BUSINESS, FIRST) is offered by the home search form; the home form offers
  ECONOMY_FLEX in addition, which has no class option on the results page. The
  multipliers of the booking page cover the four tiers of the home form.
\<close>

theorem tier_sets_differ:
  "map cls_value SEAT_CLASSES = [''ECONOMY'', ''BUSINESS'', ''FIRST'']
   \<and> map fst travelClass_options = [''ECONOMY'', ''ECONOMY_FLEX'', ''BUSINESS'', ''FIRST'']
   \<and> filter (\<lambda>t. t \<notin> set (map fst travelClass_options)) (map cls_value SEAT_CLASSES) = []
   \<and> filter (\<lambda>t. t \<notin> set (map cls_value SEAT_CLASSES)) (map fst travelClass_options)
       = [''ECONOMY_FLEX'']
   \<and> map fst multipliers = map fst travelClass_options"
  by (simp add: SEAT_CLASSES_def travelClass_options_def multipliers_def)

text \<open>ECONOMY_FLEX is offered by the home form and is not among the classes of the results page.\<close>

theorem economy_flex_not_selectable:
  "''ECONOMY_FLEX'' \<in> set (map fst travelClass_options)
   \<and> ''ECONOMY_FLEX'' \<notin> set (map cls_value SEAT_CLASSES)"
  by (simp add: SEAT_CLASSES_def travelClass_options_def)

section \<open>Properties of the bookings page\<close>

text \<open>
  Claim C7. After a cancellation that the user confirmed and the server accepted, the
  list has the same length; every booking with the given PNR is the old one with status
  Cancelled, every other booking is unchanged; paid amount, total fare, PNR, tickets and
  every further field of every booking are retained. A cancellation the user declines
  or the server refuses leaves the list as it is.
\<close>

theorem cancel_sets_status_only:
  "(api_delete pnr0 = Inr () \<longrightarrow>
      length (bookings (fst (handleCancelBooking True api_delete pnr0 st))) = length (bookings st)
      \<and> (\<forall>i < length (bookings st).
            (pnr (bookings st ! i) = pnr0 \<longrightarrow>
               bookings (fst (handleCancelBooking True api_delete pnr0 st)) ! i
                 = (bookings st ! i)\<lparr>status := ''Cancelled''\<rparr>)
          \<and> (pnr (bookings st ! i) \<noteq> pnr0 \<longrightarrow>
               bookings (fst (handleCancelBooking True api_delete pnr0 st)) ! i = bookings st ! i)
          \<and> paid_amount (bookings (fst (handleCancelBooking True api_delete pnr0 st)) ! i)
              = paid_amount (bookings st ! i)
          \<and> total_fare (bookings (fst (handleCancelBooking True api_delete pnr0 st)) ! i)
              = total_fare (bookings st ! i)
          \<and> pnr (bookings (fst (handleCancelBooking True api_delete pnr0 st)) ! i)
              = pnr (bookings st ! i)
          \<and> tickets (bookings (fst (handleCancelBooking True api_delete pnr0 st)) ! i)
              = tickets (bookings st ! i)
          \<and> booking.more (bookings (fst (handleCancelBooking True api_delete pnr0 st)) ! i)
              = booking.more (bookings st ! i)))
   \<and> bookings (fst (handleCancelBooking False api_delete pnr0 st)) = bookings st
   \<and> (api_delete pnr0 = Inl detail \<longrightarrow>
        bookings (fst (handleCancelBooking True api_delete pnr0 st)) = bookings st)"
  by (simp add: handleCancelBooking_def)

theorem cancel_sets_status_only_witness:
  "delete_ok (Some ''ABC234'') = Inr ()
   \<and> (0::nat) < length (bookings my_bookings) \<and> (1::nat) < length (bookings my_bookings)
   \<and> pnr (bookings my_bookings ! 0) = Some ''ABC234''
   \<and> pnr (bookings my_bookings ! 1) \<noteq> Some ''ABC234''
   \<and> bookings (fst (handleCancelBooking True delete_ok (Some ''ABC234'') my_bookings))
       = [confirmed_booking\<lparr>status := ''Cancelled''\<rparr>, other_booking]
   \<and> paid_amount (bookings (fst (handleCancelBooking True delete_ok (Some ''ABC234'') my_bookings)) ! 0)
       = 5150
   \<and> delete_refused (Some ''ABC234'') = Inl (Some ''Booking cannot be cancelled'')
   \<and> bookings (fst (handleCancelBooking True delete_refused (Some ''ABC234'') my_bookings))
       = [confirmed_booking, other_booking]"
  using cancel_sets_status_only [of delete_ok "Some ''ABC234''" my_bookings "Some ''Booking cannot be cancelled''"]
    cancel_sets_status_only [of delete_refused "Some ''ABC234''" my_bookings "Some ''Booking cannot be cancelled''"]
  by (simp add: handleCancelBooking_def delete_ok_def delete_refused_def my_bookings_def
      confirmed_booking_def other_booking_def sample_hold_def)

section \<open>Properties of the PNR status check\<close>

















end
